theory Spec2Isabelle
  imports Complex_Main "HOL-Library.Sublist" "HOL-Library.Multiset"
begin

section \<open>Extension presets (shared/editor/nodes/index.ts)\<close>

text \<open>
  The node, mark and plugin classes the two presets list. Each class is one constructor;
  the presets are lists of them, in the order of the source.
\<close>

datatype extension =
    Doc | Paragraph | Emoji | Text | SimpleImage | Bold | Code | Italic | Underline
  | Link | Strikethrough | History | SmartText | TrailingNode | PasteHandler
  | Placeholder | MaxLength | DateTime | Keys | ClipboardTextSerializer
  | Image | HardBreak | CodeBlock | CodeFence | CheckboxList | CheckboxItem
  | Blockquote | BulletList | OrderedList | Embed | ListItem | Attachment | Notice
  | Heading | HorizontalRule | Table | TableCell | TableHeadCell | TableRow
  | Highlight | TemplatePlaceholder | Folding | BlockMenuTrigger | Math | MathBlock
  | PreventTab | Mention | Comment

definition basicExtensions :: "extension list" where
  "basicExtensions =
     [Doc, Paragraph, Emoji, Text, SimpleImage, Bold, Code, Italic, Underline, Link,
      Strikethrough, History, SmartText, TrailingNode, PasteHandler, Placeholder,
      MaxLength, DateTime, Keys, ClipboardTextSerializer]"

definition richExtensions :: "extension list" where
  "richExtensions =
     filter (\<lambda>n. n \<noteq> SimpleImage) basicExtensions @
     [Image, HardBreak, CodeBlock, CodeFence, CheckboxList, CheckboxItem, Blockquote,
      BulletList, OrderedList, Embed, ListItem, Attachment, Notice, Heading,
      HorizontalRule, Table, TableCell, TableHeadCell, TableRow, Highlight,
      TemplatePlaceholder, Folding, BlockMenuTrigger, Math, MathBlock, PreventTab]"

definition withComments :: "extension list \<Rightarrow> extension list" where
  "withComments nodes = [Mention, Comment] @ nodes"

section \<open>Strings\<close>

text \<open>
  JavaScript strings are modelled as \<open>string\<close>. \<open>toLowerCase\<close> and lodash's
  \<open>capitalize\<close> are given on the ASCII letters and leave every other character alone.
\<close>

definition toLowerChar :: "char \<Rightarrow> char" where
  "toLowerChar c =
     (case map_of (zip ''ABCDEFGHIJKLMNOPQRSTUVWXYZ'' ''abcdefghijklmnopqrstuvwxyz'') c of
        Some l \<Rightarrow> l | None \<Rightarrow> c)"

definition toUpperChar :: "char \<Rightarrow> char" where
  "toUpperChar c =
     (case map_of (zip ''abcdefghijklmnopqrstuvwxyz'' ''ABCDEFGHIJKLMNOPQRSTUVWXYZ'') c of
        Some u \<Rightarrow> u | None \<Rightarrow> c)"

definition toLowerCase :: "string \<Rightarrow> string" where
  "toLowerCase s = map toLowerChar s"

text \<open>lodash \<open>capitalize\<close>: first character to upper case, the rest to lower case.\<close>

fun capitalize :: "string \<Rightarrow> string" where
  "capitalize [] = []"
| "capitalize (c # cs) = toUpperChar c # toLowerCase cs"

text \<open>\<open>String.prototype.includes\<close>: the needle occurs as a contiguous substring.\<close>

fun includes_str :: "string \<Rightarrow> string \<Rightarrow> bool" where
  "includes_str [] needle = (needle = [])"
| "includes_str (c # cs) needle = (prefix needle (c # cs) \<or> includes_str cs needle)"

section \<open>Menu items\<close>

text \<open>
  \<open>MenuItem | EmbedDescriptor\<close>: every field is optional in the source. An absent
  string is \<open>None\<close>; an absent boolean flag counts as \<open>False\<close> where the source only
  tests its truthiness. \<open>matcher\<close> is present on embed descriptors only, and
  \<open>appendSpace\<close> records whether the key is present (\<open>"appendSpace" in item\<close>).
\<close>

record item =
  name :: "string option"
  title :: "string option"
  keywords_str :: "string option"
  defaultHidden :: bool
  visible :: "bool option"
  appendSpace :: bool
  attrs :: "(string \<times> string) list"
  matcher :: "(string \<Rightarrow> bool) option"

text \<open>Truthiness of an optional string: defined and not empty.\<close>

definition truthy :: "string option \<Rightarrow> bool" where
  "truthy s = (case s of None \<Rightarrow> False | Some v \<Rightarrow> v \<noteq> [])"

text \<open>\<open>s || ""\<close>\<close>

definition orEmpty :: "string option \<Rightarrow> string" where
  "orEmpty s = (case s of None \<Rightarrow> [] | Some v \<Rightarrow> v)"

definition isSeparator :: "item \<Rightarrow> bool" where
  "isSeparator i = (name i = Some ''separator'')"

text \<open>The literal \<open>{ name: "separator" }\<close>.\<close>

definition separator :: item where
  "separator = \<lparr> name = Some ''separator'', title = None, keywords_str = None,
     defaultHidden = False, visible = None, appendSpace = False, attrs = [],
     matcher = None \<rparr>"

section \<open>The environment of the suggestions menu\<close>

text \<open>
  What the component takes from outside this repository's files, as parameters:
  the keys of the editor's command table, the third-party \<open>commandScore\<close>, the engine's
  \<open>Array.prototype.sort\<close> (given the comparator and the array), and the constant
  \<open>AttachmentValidation.imageContentTypes.join(", ")\<close>.
\<close>

record env =
  commands :: "string set"
  commandScore :: "string \<Rightarrow> string \<Rightarrow> real"
  sortfn :: "(item \<Rightarrow> item \<Rightarrow> real) \<Rightarrow> item list \<Rightarrow> item list"
  imageContentTypes :: string

text \<open>
  The props the model reads. For the optional callbacks \<open>uploadFile\<close> and
  \<open>onLinkToolbarOpen\<close> the field says whether it is supplied; \<open>embeds\<close> and
  \<open>filterable\<close> are optional with the defaults \<open>[]\<close> and \<open>true\<close>.
\<close>

record props =
  rtl :: bool
  isActive :: bool
  search :: string
  uploadFile :: bool
  onLinkToolbarOpen :: bool
  embeds :: "item list option"
  filterable :: "bool option"
  items :: "item list"

section \<open>Collapsing separators\<close>

text \<open>
  Modelled from the spec: \<open>filterExcessSeparators\<close> (shared/editor/lib), whose source is
  not among the files. The spec: "collapse consecutive/leading/trailing separators into
  at most one separator between real runs". A run of separators is remembered as
  pending (its first entry) and emitted only when a real entry follows a real entry.
\<close>

fun collapseSeparators :: "item option \<Rightarrow> item list \<Rightarrow> item list" where
  "collapseSeparators pending [] = []"
| "collapseSeparators pending (x # xs) =
     (if isSeparator x
      then collapseSeparators (case pending of None \<Rightarrow> Some x | Some s \<Rightarrow> Some s) xs
      else (case pending of None \<Rightarrow> [] | Some s \<Rightarrow> [s]) @ x # collapseSeparators None xs)"

text \<open>
  Modelled from the spec: the separators in front are dropped, then the runs collapsed
  and a run at the end dropped.
\<close>

definition filterExcessSeparators :: "item list \<Rightarrow> item list" where
  "filterExcessSeparators xs = collapseSeparators None (dropWhile isSeparator xs)"

section \<open>The candidate list (\<open>filtered\<close> of SuggestionsMenu)\<close>

text \<open>The embed descriptors that are offered: titled and not explicitly hidden, renamed "embed".\<close>

definition embedItems :: "props \<Rightarrow> item list" where
  "embedItems p =
     map (\<lambda>embed. embed \<lparr> name := Some ''embed'' \<rparr>)
       (filter (\<lambda>embed. truthy (title embed) \<and> visible embed \<noteq> Some False)
          (case embeds p of None \<Rightarrow> [] | Some es \<Rightarrow> es))"

definition allItems :: "props \<Rightarrow> item list" where
  "allItems p =
     (if embedItems p \<noteq> [] then items p @ separator # embedItems p else items p)"

text \<open>The callback of \<open>items.filter\<close>, in the order of its tests.\<close>

definition filterItem :: "env \<Rightarrow> props \<Rightarrow> item \<Rightarrow> bool" where
  "filterItem e p i =
     (let searchInput = toLowerCase (search p) in
      if name i = Some ''separator'' then True
      else if truthy (name i) \<and> orEmpty (name i) \<notin> commands e
              \<and> (''create'' @ capitalize (orEmpty (name i))) \<notin> commands e then False
      else if \<not> uploadFile p \<and> name i = Some ''image'' then False
      else if search p = [] then \<not> defaultHidden i
      else if filterable p = Some False then True
      else includes_str (toLowerCase (orEmpty (title i))) searchInput
           \<or> includes_str (toLowerCase (orEmpty (keywords_str i))) searchInput)"

text \<open>The result of the filtering step (the inner \<open>filtered\<close> of the source).\<close>

definition filteredItems :: "env \<Rightarrow> props \<Rightarrow> item list" where
  "filteredItems e p = filter (filterItem e p) (allItems p)"

text \<open>
  The comparator handed to \<open>sort\<close>. The source's arrow function names one argument
  only, so the second element compared is ignored.
\<close>

definition scoreComparator :: "env \<Rightarrow> props \<Rightarrow> item \<Rightarrow> item \<Rightarrow> real" where
  "scoreComparator e p a b =
     (let searchInput = toLowerCase (search p) in
      if searchInput \<noteq> [] \<and> truthy (title a)
      then commandScore e (orEmpty (title a)) searchInput else 0)"

definition filtered :: "env \<Rightarrow> props \<Rightarrow> item list" where
  "filtered e p =
     filterExcessSeparators (sortfn e (scoreComparator e p) (filteredItems e p))"

section \<open>Effects of the handlers\<close>

text \<open>
  A handler's calls on its collaborators, in order: the event's own methods, the props'
  callbacks, the editor view, the command table, the toast surface, the hidden file
  input, and the component's two state setters.
\<close>

datatype effect =
    PreventDefault
  | StopPropagation
  | OnClearSearch
  | OnClose "bool option"
  | OnLinkToolbarOpen
  | ViewFocus
  | RunCommand string "(string \<times> string) list"
  | DispatchInsertText string
  | ShowToast string
  | SetAccept string
  | ClickFileInput
  | SetSelectedIndex int
  | SetInsertItem item

datatype error = TypeError

text \<open>What a handler did, and the exception that ended it, if any.\<close>

type_synonym outcome = "effect list \<times> error option"

definition andThen :: "outcome \<Rightarrow> outcome \<Rightarrow> outcome" where
  "andThen a b = (case snd a of Some err \<Rightarrow> a | None \<Rightarrow> (fst a @ fst b, snd b))"

text \<open>
  \<open>insertNode\<close>: the command named by the item, else the command
  \<open>create<Capitalized name>\<close>; calling a missing one throws (after the search was
  cleared).
\<close>

definition insertNode :: "env \<Rightarrow> item \<Rightarrow> outcome" where
  "insertNode e i =
     (let literal = orEmpty (name i);
          fallback = ''create'' @ capitalize (orEmpty (name i));
          after = (if appendSpace i then [DispatchInsertText '' ''] else []) @ [OnClose None]
      in if truthy (name i) \<and> literal \<in> commands e
         then ([OnClearSearch, RunCommand literal (attrs i)] @ after, None)
         else if fallback \<in> commands e
         then ([OnClearSearch, RunCommand fallback (attrs i)] @ after, None)
         else ([OnClearSearch], Some TypeError))"

text \<open>
  \<open>triggerFilePick\<close>: the hidden file input is rendered, and so \<open>inputRef.current\<close>
  is set, exactly when \<open>uploadFile\<close> is supplied.
\<close>

definition triggerFilePick :: "props \<Rightarrow> string \<Rightarrow> effect list" where
  "triggerFilePick p accept =
     (if uploadFile p
      then (if accept \<noteq> [] then [SetAccept accept] else []) @ [ClickFileInput]
      else [])"

definition handleClickItem :: "env \<Rightarrow> props \<Rightarrow> item \<Rightarrow> outcome" where
  "handleClickItem e p i =
     (if name i = Some ''image'' then (triggerFilePick p (imageContentTypes e), None)
      else if name i = Some ''attachment'' then (triggerFilePick p ''*'', None)
      else if name i = Some ''embed'' then ([SetInsertItem i], None)
      else if name i = Some ''link''
      then ([OnClearSearch, OnClose None] @ (if onLinkToolbarOpen p then [OnLinkToolbarOpen] else []),
            None)
      else insertNode e i)"

definition close :: "effect list" where
  "close = [OnClose None, ViewFocus]"

section \<open>Keyboard navigation (\<open>handleKeyDown\<close>)\<close>

record keyboard_event =
  key :: string
  shiftKey :: bool
  ctrlKey :: bool

text \<open>\<open>filtered[i]\<close>: \<open>undefined\<close> outside the array.\<close>

definition elemAt :: "'a list \<Rightarrow> int \<Rightarrow> 'a option" where
  "elemAt xs i = (if 0 \<le> i \<and> i < int (length xs) then Some (xs ! nat i) else None)"

text \<open>\<open>x?.name === "separator"\<close>\<close>

definition isSeparatorAt :: "item list \<Rightarrow> int \<Rightarrow> bool" where
  "isSeparatorAt xs i = (case elemAt xs i of None \<Rightarrow> False | Some x \<Rightarrow> name x = Some ''separator'')"

definition isPreviousChord :: "keyboard_event \<Rightarrow> bool" where
  "isPreviousChord ev =
     (key ev = ''ArrowUp'' \<or> (key ev = ''Tab'' \<and> shiftKey ev) \<or> (ctrlKey ev \<and> key ev = ''p''))"

definition isNextChord :: "keyboard_event \<Rightarrow> bool" where
  "isNextChord ev =
     (key ev = ''ArrowDown'' \<or> (key ev = ''Tab'' \<and> \<not> shiftKey ev) \<or> (ctrlKey ev \<and> key ev = ''n''))"

text \<open>
  The bodies of the handler's tests for Enter, for a "previous" chord and for a "next"
  chord. \<open>selectedIndex\<close> is the value the handler closed over, so every test sees
  the same one.
\<close>

definition onEnter :: "env \<Rightarrow> props \<Rightarrow> item list \<Rightarrow> int \<Rightarrow> outcome" where
  "onEnter e p fs selectedIndex =
     andThen ([PreventDefault, StopPropagation], None)
       (case elemAt fs selectedIndex of
          Some i \<Rightarrow> handleClickItem e p i
        | None \<Rightarrow> ([OnClose (Some True)], None))"

definition onPrevious :: "item list \<Rightarrow> int \<Rightarrow> outcome" where
  "onPrevious fs selectedIndex =
     ([PreventDefault, StopPropagation] @
      (if fs \<noteq> []
       then (let prevIndex = selectedIndex - 1 in
             [SetSelectedIndex
                (max 0 (if isSeparatorAt fs prevIndex then prevIndex - 1 else prevIndex))])
       else close), None)"

definition onNext :: "item list \<Rightarrow> int \<Rightarrow> outcome" where
  "onNext fs selectedIndex =
     ([PreventDefault, StopPropagation] @
      (if fs \<noteq> []
       then (let total = int (length fs) - 1; nextIndex = selectedIndex + 1 in
             [SetSelectedIndex
                (min (if isSeparatorAt fs nextIndex then nextIndex + 1 else nextIndex) total)])
       else close), None)"

text \<open>
  The window's keydown handler: nothing while the menu is not active; otherwise the
  four tests of the source, one after the other.
\<close>

definition handleKeyDown :: "env \<Rightarrow> props \<Rightarrow> item list \<Rightarrow> int \<Rightarrow> keyboard_event \<Rightarrow> outcome" where
  "handleKeyDown e p fs selectedIndex ev =
     (if \<not> isActive p then ([], None)
      else
        andThen (if key ev = ''Enter'' then onEnter e p fs selectedIndex else ([], None))
       (andThen (if isPreviousChord ev then onPrevious fs selectedIndex else ([], None))
       (andThen (if isNextChord ev then onNext fs selectedIndex else ([], None))
                (if key ev = ''Escape'' then (close, None) else ([], None)))))"

text \<open>For the statements about navigation: the index of the last entry that is not a
  separator (\<open>-1\<close> when there is none).\<close>

definition lastRealIndex :: "item list \<Rightarrow> int" where
  "lastRealIndex fs = int (length (dropWhile isSeparator (rev fs))) - 1"

section \<open>The link input (\<open>handleLinkInputKeydown\<close>, \<open>handleLinkInputPaste\<close>)\<close>

text \<open>\<open>"matcher" in insertItem && insertItem.matcher(href)\<close>\<close>

definition matches :: "item \<Rightarrow> string \<Rightarrow> bool" where
  "matches insertItem href = (case matcher insertItem of None \<Rightarrow> False | Some m \<Rightarrow> m href)"

text \<open>The literal \<open>{ name: "embed", attrs: { href } }\<close>.\<close>

definition embedNode :: "string \<Rightarrow> item" where
  "embedNode href = \<lparr> name = Some ''embed'', title = None, keywords_str = None,
     defaultHidden = False, visible = None, appendSpace = False,
     attrs = [(''href'', href)], matcher = None \<rparr>"

definition handleLinkInputKeydown ::
  "env \<Rightarrow> props \<Rightarrow> item option \<Rightarrow> keyboard_event \<Rightarrow> string \<Rightarrow> outcome" where
  "handleLinkInputKeydown e p insertItem ev href =
     (let escapePart = (if key ev = ''Escape'' then (close, None) else ([], None)) in
      if \<not> isActive p then ([], None)
      else case insertItem of
        None \<Rightarrow> ([], None)
      | Some i \<Rightarrow>
          if key ev = ''Enter''
          then andThen ([PreventDefault, StopPropagation], None)
                 (if \<not> matches i href then ([ShowToast ''embedInvalidLink''], None)
                  else andThen (insertNode e (embedNode href)) escapePart)
          else escapePart)"

definition handleLinkInputPaste :: "env \<Rightarrow> props \<Rightarrow> item option \<Rightarrow> string \<Rightarrow> outcome" where
  "handleLinkInputPaste e p insertItem href =
     (if \<not> isActive p then ([], None)
      else case insertItem of
        None \<Rightarrow> ([], None)
      | Some i \<Rightarrow>
          if matches i href
          then andThen ([PreventDefault, StopPropagation], None) (insertNode e (embedNode href))
          else ([], None))"

section \<open>Placing the menu (\<open>calculatePosition\<close>)\<close>

text \<open>
  Coordinates are JavaScript numbers; the model computes with reals. The one place
  where the source's arithmetic leaves the numbers is \<open>offsetParent.bottom - top\<close>
  when the menu has no offset parent: the stand-in rectangle of the source has no
  \<open>bottom\<close>, and the difference is \<open>NaN\<close>.
\<close>

datatype jsnum = Num real | NaN

text \<open>\<open>Position\<close>: an absent coordinate (\<open>undefined\<close>) is \<open>None\<close>.\<close>

record position =
  pos_top :: "jsnum option"
  pos_bottom :: "jsnum option"
  pos_left :: "jsnum option"
  pos_right :: "jsnum option"
  isAbove :: bool

definition defaultPosition :: position where
  "defaultPosition = \<lparr> pos_top = Some (Num 0), pos_bottom = None,
     pos_left = Some (Num (- 10000)), pos_right = None, isAbove = False \<rparr>"

text \<open>A rectangle of viewport coordinates, as \<open>coordsAtPos\<close> and
  \<open>getBoundingClientRect\<close> return it.\<close>

record rect =
  rect_top :: real
  rect_bottom :: real
  rect_left :: real
  rect_right :: real

text \<open>\<open>menuRef.current\<close>: the measured panel and, when it has one, the bounding
  rectangle of its offset parent.\<close>

record menu_element =
  offsetWidth :: real
  offsetHeight :: real
  offsetParent :: "rect option"

text \<open>
  What \<open>calculatePosition\<close> reads besides the props: the two caret lookups
  \<open>view.coordsAtPos(selection.from)\<close> and \<open>view.coordsAtPos(selection.to, -1)\<close>
  (\<open>None\<close> when the call throws), the mounted menu element (\<open>None\<close> before it is
  mounted), and \<open>window.innerWidth\<close>.
\<close>

record view_geometry =
  coordsFrom :: "rect option"
  coordsTo :: "rect option"
  menuRef :: "menu_element option"
  innerWidth :: real

definition margin :: real where
  "margin = 12"

text \<open>The inner \<open>caretPosition\<close>: the zero rectangle when either lookup throws.\<close>

definition caretPosition :: "view_geometry \<Rightarrow> rect" where
  "caretPosition g =
     (case (coordsFrom g, coordsTo g) of
        (Some fromPos, Some toPos) \<Rightarrow>
          \<lparr> rect_top = min (rect_top fromPos) (rect_top toPos),
            rect_bottom = max (rect_bottom fromPos) (rect_bottom toPos),
            rect_left = min (rect_left fromPos) (rect_left toPos),
            rect_right = max (rect_right fromPos) (rect_right toPos) \<rparr>
      | _ \<Rightarrow> \<lparr> rect_top = 0, rect_bottom = 0, rect_left = 0, rect_right = 0 \<rparr>)"

text \<open>\<open>ref ? ref.offsetWidth : 0\<close>, \<open>ref ? ref.offsetHeight : 0\<close>\<close>

definition panelWidth :: "view_geometry \<Rightarrow> real" where
  "panelWidth g = (case menuRef g of None \<Rightarrow> 0 | Some r \<Rightarrow> offsetWidth r)"

definition panelHeight :: "view_geometry \<Rightarrow> real" where
  "panelHeight g = (case menuRef g of None \<Rightarrow> 0 | Some r \<Rightarrow> offsetHeight r)"

text \<open>
  \<open>ref?.offsetParent\<close>'s bounding rectangle. Without one the source reads \<open>left\<close> and
  \<open>top\<close> of the stand-in \<open>{ width: 0, height: 0, top: 0, left: 0 }\<close>.
\<close>

definition parentRect :: "view_geometry \<Rightarrow> rect option" where
  "parentRect g = (case menuRef g of None \<Rightarrow> None | Some r \<Rightarrow> offsetParent r)"

definition parentLeft :: "view_geometry \<Rightarrow> real" where
  "parentLeft g = (case parentRect g of None \<Rightarrow> 0 | Some d \<Rightarrow> rect_left d)"

definition parentTop :: "view_geometry \<Rightarrow> real" where
  "parentTop g = (case parentRect g of None \<Rightarrow> 0 | Some d \<Rightarrow> rect_top d)"

definition calculatePosition :: "props \<Rightarrow> view_geometry \<Rightarrow> position" where
  "calculatePosition p g =
     (if \<not> isActive p then defaultPosition
      else
        let c = caretPosition g;
            leftPos = (if rtl p then rect_right c - panelWidth g
                       else min (rect_left c - parentLeft g)
                              (innerWidth g - parentLeft g - panelWidth g - margin))
        in if rect_top c - panelHeight g > margin
           then \<lparr> pos_top = None,
                  pos_bottom = Some (case parentRect g of None \<Rightarrow> NaN
                                     | Some d \<Rightarrow> Num (rect_bottom d - rect_top c)),
                  pos_left = Some (Num leftPos), pos_right = None, isAbove = False \<rparr>
           else \<lparr> pos_top = Some (Num (rect_bottom c - parentTop g)), pos_bottom = None,
                  pos_left = Some (Num leftPos), pos_right = None, isAbove = True \<rparr>)"

section \<open>Window listeners and the component lifecycle\<close>

text \<open>
  The listeners a controller's effect adds to \<open>window\<close>. React runs an effect after
  the first render and after each render whose dependencies changed, the previous
  run's cleanup first; unmounting runs the last cleanup.
\<close>

datatype listener = MouseDown | KeyDownCapture | MouseUp

datatype controller = SuggestionsMenu | SelectionToolbar

fun effectListeners :: "controller \<Rightarrow> listener list" where
  "effectListeners SuggestionsMenu = [MouseDown, KeyDownCapture]"
| "effectListeners SelectionToolbar = [MouseUp]"

text \<open>The effect body: both controllers add their listeners whatever \<open>isActive\<close> is.\<close>

definition runEffect :: "controller \<Rightarrow> bool \<Rightarrow> listener list \<Rightarrow> listener list" where
  "runEffect c active registered = registered @ effectListeners c"

definition runCleanup :: "controller \<Rightarrow> listener list \<Rightarrow> listener list" where
  "runCleanup c registered = foldr remove1 (effectListeners c) registered"

record component =
  mounted :: bool
  active :: bool
  registered :: "listener list"

text \<open>\<open>Render a changed\<close>: a render with \<open>isActive = a\<close>; \<open>changed\<close> says whether the
  effect's dependencies differ from the previous render's.\<close>

datatype lifecycle = Render bool bool | Unmount

fun lifecycleStep :: "controller \<Rightarrow> component \<Rightarrow> lifecycle \<Rightarrow> component" where
  "lifecycleStep c s (Render a changed) =
     (if \<not> mounted s
      then \<lparr> mounted = True, active = a, registered = runEffect c a (registered s) \<rparr>
      else if changed
      then \<lparr> mounted = True, active = a,
             registered = runEffect c a (runCleanup c (registered s)) \<rparr>
      else s \<lparr> active := a \<rparr>)"
| "lifecycleStep c s Unmount =
     (if mounted s
      then \<lparr> mounted = False, active = False, registered = runCleanup c (registered s) \<rparr>
      else s)"

definition unmounted :: component where
  "unmounted = \<lparr> mounted = False, active = False, registered = [] \<rparr>"

definition lifecycleRun :: "controller \<Rightarrow> lifecycle list \<Rightarrow> component" where
  "lifecycleRun c evs = foldl (lifecycleStep c) unmounted evs"

section \<open>The selection toolbar\<close>

text \<open>
  What \<open>useIsActive\<close> reads of the editor state: whether
  \<open>isMarkActive(schema.marks.link)(state)\<close> holds, the selection (its class, for a node
  selection the name of the node's type, and whether it is empty), the text of
  \<open>doc.cut(from, to)\<close>, and \<open>content.size\<close> of each top node of the selection's slice.
\<close>

datatype selection_class = NodeSelection string | TextSelection | OtherSelection

record selection =
  sel_class :: selection_class
  sel_empty :: bool
  sel_from :: nat
  sel_to :: nat

record editor_state =
  linkMarkActive :: bool
  state_selection :: "selection option"
  selectionText :: string
  contentSizes :: "nat list"

definition isNodeSelection :: "selection \<Rightarrow> bool" where
  "isNodeSelection s = (case sel_class s of NodeSelection n \<Rightarrow> True | _ \<Rightarrow> False)"

definition useIsActive :: "editor_state \<Rightarrow> bool" where
  "useIsActive st =
     (if linkMarkActive st then True
      else case state_selection st of
        None \<Rightarrow> False
      | Some s \<Rightarrow>
          if sel_empty s then False
          else if sel_class s = NodeSelection ''hr'' then True
          else if sel_class s = NodeSelection ''image'' then True
          else if isNodeSelection s then False
          else if sel_class s = TextSelection \<and> selectionText st = [] then False
          else list_ex (\<lambda>size. size \<noteq> 0) (contentSizes st))"

text \<open>
  The activation predicate in the words of the spec: a link mark covers the position; or
  the selection is not empty and is a node selection of a horizontal rule or an image; or
  it is not empty, is not a node selection, and its content has a non-empty node.
\<close>

definition specIsActive :: "editor_state \<Rightarrow> bool" where
  "specIsActive st =
     (linkMarkActive st \<or>
      (case state_selection st of
         None \<Rightarrow> False
       | Some s \<Rightarrow>
           \<not> sel_empty s \<and>
           (sel_class s = NodeSelection ''hr'' \<or> sel_class s = NodeSelection ''image'' \<or>
            (\<not> isNodeSelection s \<and> list_ex (\<lambda>size. size \<noteq> 0) (contentSizes st)))))"

text \<open>The steps of a transaction, and the toolbar's calls on its collaborators.\<close>

datatype tr_step = RemoveMark nat nat string | AddMark nat nat string string

datatype toolbar_effect = Dispatch "tr_step list" | CreateAndInsertLink string string

text \<open>
  \<open>handleOnCreateLink\<close>. \<open>hasOnCreateLink\<close> says whether the prop is supplied;
  \<open>creatingUrlPrefix\<close> is a constant of shared/utils/urls, taken as a parameter. The
  placeholder href ends with the ellipsis character U+2026, here its three UTF-8 bytes.
\<close>

definition ellipsis :: string where
  "ellipsis = [char_of (226 :: nat), char_of (128 :: nat), char_of (166 :: nat)]"

definition handleOnCreateLink ::
  "bool \<Rightarrow> string \<Rightarrow> selection \<Rightarrow> string \<Rightarrow> toolbar_effect list" where
  "handleOnCreateLink hasOnCreateLink creatingUrlPrefix s title' =
     (if \<not> hasOnCreateLink then []
      else if sel_from s = sel_to s then []
      else
        let href = creatingUrlPrefix @ title' @ ellipsis in
        [Dispatch [RemoveMark (sel_from s) (sel_to s) ''link'',
                   AddMark (sel_from s) (sel_to s) ''link'' href],
         CreateAndInsertLink title' href])"

section \<open>Concrete instances\<close>

text \<open>
  One admissible \<open>Array.prototype.sort\<close>: a stable insertion sort that puts \<open>a\<close>
  after \<open>b\<close> when the comparator's answer on \<open>(a, b)\<close> is positive.
\<close>

fun insertSorted :: "('a \<Rightarrow> 'a \<Rightarrow> real) \<Rightarrow> 'a \<Rightarrow> 'a list \<Rightarrow> 'a list" where
  "insertSorted cmp x [] = [x]"
| "insertSorted cmp x (y # ys) =
     (if cmp x y > 0 then y # insertSorted cmp x ys else x # y # ys)"

fun insertionSort :: "('a \<Rightarrow> 'a \<Rightarrow> real) \<Rightarrow> 'a list \<Rightarrow> 'a list" where
  "insertionSort cmp [] = []"
| "insertionSort cmp (x # xs) = insertSorted cmp x (insertionSort cmp xs)"



definition menuItem :: "string \<Rightarrow> string \<Rightarrow> item" where
  "menuItem n t = \<lparr> name = Some n, title = Some t, keywords_str = None,
     defaultHidden = False, visible = None, appendSpace = False, attrs = [],
     matcher = None \<rparr>"

definition heading1 :: item where
  "heading1 = menuItem ''heading1'' ''Big heading''"

definition heading2 :: item where
  "heading2 = menuItem ''heading2'' ''Medium heading''"

definition imageItem :: item where
  "imageItem = menuItem ''image'' ''Image''"

text \<open>An editor whose command table has the commands of the scenario, a score that is 1
  when the title contains the search text and 0 otherwise, and the insertion sort above.\<close>

definition exampleEnv :: env where
  "exampleEnv = \<lparr> commands = {''heading1'', ''heading2'', ''image'', ''embed''},
     commandScore = (\<lambda>t s. if includes_str (toLowerCase t) s then 1 else 0),
     sortfn = insertionSort,
     imageContentTypes = ''image/png, image/jpeg'' \<rparr>"

text \<open>The scenario of the spec: search text "head", no upload capability.\<close>

definition headProps :: "item list \<Rightarrow> props" where
  "headProps is = \<lparr> rtl = False, isActive = True, search = ''head'', uploadFile = False,
     onLinkToolbarOpen = False, embeds = None, filterable = None, items = is \<rparr>"



text \<open>The same editor with a score that is zero for every title.\<close>

definition flatEnv :: env where
  "flatEnv = exampleEnv \<lparr> commandScore := (\<lambda>t s. 0) \<rparr>"

definition arrowDown :: keyboard_event where
  "arrowDown = \<lparr> key = ''ArrowDown'', shiftKey = False, ctrlKey = False \<rparr>"

definition arrowUp :: keyboard_event where
  "arrowUp = \<lparr> key = ''ArrowUp'', shiftKey = False, ctrlKey = False \<rparr>"

text \<open>An embed descriptor whose matcher accepts the URLs that start with
  \<open>https://example.com/\<close>.\<close>

definition exampleEmbed :: item where
  "exampleEmbed = \<lparr> name = Some ''embed'', title = Some ''Example'', keywords_str = None,
     defaultHidden = False, visible = None, appendSpace = False, attrs = [],
     matcher = Some (\<lambda>href. prefix ''https://example.com/'' href) \<rparr>"

text \<open>The menu after an embed entry was chosen: no search text, the entry among the
  items.\<close>

definition linkProps :: props where
  "linkProps = \<lparr> rtl = False, isActive = True, search = [], uploadFile = False,
     onLinkToolbarOpen = False, embeds = None, filterable = None, items = [exampleEmbed] \<rparr>"

text \<open>A caret at 400px from the top of the viewport, and a mounted 280 by 300 panel
  whose offset parent starts at (240, 80).\<close>

definition exampleCaret :: rect where
  "exampleCaret = \<lparr> rect_top = 400, rect_bottom = 420, rect_left = 500, rect_right = 501 \<rparr>"

definition examplePanel :: menu_element where
  "examplePanel = \<lparr> offsetWidth = 280, offsetHeight = 300,
     offsetParent = Some \<lparr> rect_top = 80, rect_bottom = 880, rect_left = 240,
                           rect_right = 1040 \<rparr> \<rparr>"

definition exampleGeometry :: view_geometry where
  "exampleGeometry = \<lparr> coordsFrom = Some exampleCaret, coordsTo = Some exampleCaret,
     menuRef = Some examplePanel, innerWidth = 1280 \<rparr>"

text \<open>The same layout when the caret lookup throws, and before the panel is mounted.\<close>

definition staleGeometry :: view_geometry where
  "staleGeometry = exampleGeometry \<lparr> coordsFrom := None, coordsTo := None \<rparr>"

definition unmountedStaleGeometry :: view_geometry where
  "unmountedStaleGeometry = staleGeometry \<lparr> menuRef := None \<rparr>"

text \<open>A text selection over an inline node that has no text: the cut has no text
  content, and the slice's one top node has content of size 1.\<close>

definition inlineNodeState :: editor_state where
  "inlineNodeState = \<lparr> linkMarkActive = False,
     state_selection = Some \<lparr> sel_class = TextSelection, sel_empty = False,
                              sel_from = 2, sel_to = 3 \<rparr>,
     selectionText = [], contentSizes = [1] \<rparr>"

definition collapsedSelection :: selection where
  "collapsedSelection = \<lparr> sel_class = TextSelection, sel_empty = True,
     sel_from = 7, sel_to = 7 \<rparr>"

section \<open>Properties of the presets\<close>

lemma filter_basicExtensions:
  "filter (\<lambda>n. n \<noteq> SimpleImage) basicExtensions =
     [Doc, Paragraph, Emoji, Text, Bold, Code, Italic, Underline, Link,
      Strikethrough, History, SmartText, TrailingNode, PasteHandler, Placeholder,
      MaxLength, DateTime, Keys, ClipboardTextSerializer]"
  by (simp add: basicExtensions_def)

lemma richExtensions_first_addition: "richExtensions ! 19 = Image"
  by (simp add: richExtensions_def filter_basicExtensions)

text \<open>
  C8, as stated: every descriptor of the basic preset is also in the rich preset.
  It fails at \<open>SimpleImage\<close>, which the rich preset filters out before it appends
  its own descriptors.
\<close>

theorem rich_lacks_SimpleImage:
  "SimpleImage \<in> set basicExtensions \<and> SimpleImage \<notin> set richExtensions
   \<and> \<not> set basicExtensions \<subseteq> set richExtensions"
proof -
  have a: "SimpleImage \<in> set basicExtensions"
    by (simp add: basicExtensions_def)
  have b: "SimpleImage \<notin> set richExtensions"
    by (simp add: richExtensions_def filter_basicExtensions)
  from a b show ?thesis by blast
qed

text \<open>
  C8, amended: the rich preset is the basic preset without \<open>SimpleImage\<close>, in the
  same order, followed by further descriptors (the first of them \<open>Image\<close>, which takes
  the place of \<open>SimpleImage\<close>). So every basic descriptor other than \<open>SimpleImage\<close>
  is in the rich preset, and the rich preset is the longer list.
\<close>

theorem rich_extends_basic_without_SimpleImage:
  "take (length basicExtensions - 1) richExtensions =
     filter (\<lambda>n. n \<noteq> SimpleImage) basicExtensions
   \<and> set basicExtensions - {SimpleImage} \<subseteq> set richExtensions
   \<and> Image \<in> set richExtensions \<and> Image \<notin> set basicExtensions
   \<and> length basicExtensions = 20 \<and> length richExtensions = 45"
proof -
  have l: "length basicExtensions = 20"
    by (simp add: basicExtensions_def)
  have f: "length (filter (\<lambda>n. n \<noteq> SimpleImage) basicExtensions) = 19"
    by (simp add: filter_basicExtensions)
  have t: "take (length basicExtensions - 1) richExtensions =
             filter (\<lambda>n. n \<noteq> SimpleImage) basicExtensions"
    using l f by (simp add: richExtensions_def)
  have s: "set basicExtensions - {SimpleImage} \<subseteq> set richExtensions"
    by (auto simp: richExtensions_def)
  have i: "Image \<in> set richExtensions"
    by (simp add: richExtensions_def)
  have j: "Image \<notin> set basicExtensions"
    by (simp add: basicExtensions_def)
  have r: "length richExtensions = 45"
    using f by (simp add: richExtensions_def)
  from l t s i j r show ?thesis by blast
qed

section \<open>Properties of the separator collapse\<close>

lemma set_collapseSeparators:
  "set (collapseSeparators pending xs) \<subseteq> set xs \<union> set_option pending"
  by (induction xs arbitrary: pending) (auto split: option.splits if_splits)

lemma set_filterExcessSeparators: "set (filterExcessSeparators xs) \<subseteq> set xs"
proof -
  have "set (filterExcessSeparators xs) \<subseteq> set (dropWhile isSeparator xs)"
    using set_collapseSeparators [of None "dropWhile isSeparator xs"]
    by (simp add: filterExcessSeparators_def)
  also have "\<dots> \<subseteq> set xs"
    by (auto dest: set_dropWhileD)
  finally show ?thesis .
qed



lemma last_collapseSeparators:
  "collapseSeparators pending xs \<noteq> [] \<Longrightarrow> \<not> isSeparator (last (collapseSeparators pending xs))"
  by (induction xs arbitrary: pending) (auto split: if_splits option.splits)

lemma hd_collapseSeparators:
  "xs \<noteq> [] \<Longrightarrow> \<not> isSeparator (hd xs) \<Longrightarrow> hd (collapseSeparators None xs) = hd xs"
  by (cases xs) auto

lemma filterExcessSeparators_last:
  "filterExcessSeparators xs \<noteq> [] \<Longrightarrow> \<not> isSeparator (last (filterExcessSeparators xs))"
  by (simp add: filterExcessSeparators_def last_collapseSeparators)

lemma filterExcessSeparators_hd:
  assumes "filterExcessSeparators xs \<noteq> []"
  shows "\<not> isSeparator (hd (filterExcessSeparators xs))"
proof -
  let ?d = "dropWhile isSeparator xs"
  have ne: "?d \<noteq> []"
    using assms by (metis collapseSeparators.simps(1) filterExcessSeparators_def)
  then have h: "\<not> isSeparator (hd ?d)"
    by (rule hd_dropWhile)
  show ?thesis
    using ne h by (simp add: filterExcessSeparators_def hd_collapseSeparators)
qed

section \<open>Properties of the candidate list\<close>

lemma mset_insertSorted: "mset (insertSorted cmp x xs) = add_mset x (mset xs)"
  by (induction xs) auto

lemma mset_insertionSort: "mset (insertionSort cmp xs) = mset xs"
  by (induction xs) (auto simp: mset_insertSorted)

lemma sortfn_exampleEnv: "mset (sortfn exampleEnv cmp xs) = mset xs"
  by (simp add: exampleEnv_def mset_insertionSort)

lemma set_filtered:
  assumes "\<And>cmp xs. mset (sortfn e cmp xs) = mset xs"
  shows "set (filtered e p) \<subseteq> set (filteredItems e p)"
proof -
  have "set (sortfn e (scoreComparator e p) (filteredItems e p)) = set (filteredItems e p)"
    using assms by (metis set_mset_mset)
  then show ?thesis
    using set_filterExcessSeparators by (fastforce simp: filtered_def)
qed

lemma filterItem_search:
  assumes "filterItem e p i" and "search p \<noteq> []" and "filterable p \<noteq> Some False"
    and "name i \<noteq> Some ''separator''"
  shows "includes_str (toLowerCase (orEmpty (title i))) (toLowerCase (search p))
       \<or> includes_str (toLowerCase (orEmpty (keywords_str i))) (toLowerCase (search p))"
  using assms by (simp add: filterItem_def Let_def split: if_splits)

lemma lower_head: "toLowerCase ''head'' = ''head''"
  by (simp add: toLowerCase_def toLowerChar_def)

lemma filteredItems_head:
  assumes "''heading1'' \<in> commands e \<or> ''createHeading1'' \<in> commands e"
    and "''heading2'' \<in> commands e \<or> ''createHeading2'' \<in> commands e"
  shows "filteredItems e (headProps [heading1, heading2, imageItem]) = [heading1, heading2]"
proof -
  have c1: "capitalize ''heading1'' = ''Heading1''" and c2: "capitalize ''heading2'' = ''Heading2''"
    by (simp_all add: toUpperChar_def toLowerCase_def toLowerChar_def)
  have h1: "filterItem e (headProps [heading1, heading2, imageItem]) heading1"
    using assms(1)
    by (auto simp add: filterItem_def headProps_def heading1_def menuItem_def truthy_def
        orEmpty_def c1 toLowerCase_def toLowerChar_def simp del: capitalize.simps)
  have h2: "filterItem e (headProps [heading1, heading2, imageItem]) heading2"
    using assms(2)
    by (auto simp add: filterItem_def headProps_def heading2_def menuItem_def truthy_def
        orEmpty_def c2 toLowerCase_def toLowerChar_def simp del: capitalize.simps)
  have im: "\<not> filterItem e (headProps [heading1, heading2, imageItem]) imageItem"
    by (auto simp add: filterItem_def headProps_def imageItem_def menuItem_def)
  have "allItems (headProps [heading1, heading2, imageItem]) = [heading1, heading2, imageItem]"
    by (simp add: allItems_def embedItems_def headProps_def)
  then show ?thesis
    using h1 h2 im by (simp add: filteredItems_def)
qed


lemma filtered_flat:
  "filtered flatEnv (headProps [heading1, separator, heading2]) = [heading1, separator, heading2]"
  by (simp add: filtered_def filteredItems_def allItems_def embedItems_def filterItem_def
      headProps_def flatEnv_def exampleEnv_def heading1_def heading2_def separator_def
      menuItem_def truthy_def orEmpty_def toLowerCase_def toLowerChar_def scoreComparator_def
      filterExcessSeparators_def isSeparator_def)

lemma separator_passes_filter: "name i = Some ''separator'' \<Longrightarrow> filterItem e p i"
  by (simp add: filterItem_def)

text \<open>
  C1, as stated: in filterable mode and for a search text that is not empty, every
  entry that survives the filtering step has a title or keywords containing the search
  text, case-insensitively. It fails for separators: the filter's first test keeps an
  entry named "separator" whatever the search text is, and a separator has neither
  title nor keywords. Here the search text is "head" and the items are a heading, a
  separator and a heading.
\<close>

theorem separator_survives_filter:
  "search (headProps [heading1, separator, heading2]) \<noteq> []
   \<and> filterable (headProps [heading1, separator, heading2]) \<noteq> Some False
   \<and> separator \<in> set (filteredItems exampleEnv (headProps [heading1, separator, heading2]))
   \<and> \<not> includes_str (toLowerCase (orEmpty (title separator)))
          (toLowerCase (search (headProps [heading1, separator, heading2])))
   \<and> \<not> includes_str (toLowerCase (orEmpty (keywords_str separator)))
          (toLowerCase (search (headProps [heading1, separator, heading2])))"
  by (simp add: filteredItems_def allItems_def embedItems_def filterItem_def headProps_def
      separator_def orEmpty_def toLowerCase_def toLowerChar_def)

text \<open>
  C1, amended: in filterable mode (\<open>filterable\<close> absent or true) and for every search
  text that is not empty, every entry other than a separator that survives the filtering
  step, and every such entry of the final candidate list, has a title or keywords whose
  lower-cased text contains the lower-cased search text. The candidate list is a pure
  function of the props and the command table, so this holds at every recomputation.
  For the final list the engine's sort is only required to return a permutation of
  its input.
\<close>

theorem surviving_candidates_contain_search:
  assumes "\<And>cmp xs. mset (sortfn e cmp xs) = mset xs"
    and "search p \<noteq> []" and "filterable p \<noteq> Some False"
    and "i \<in> set (filteredItems e p) \<or> i \<in> set (filtered e p)"
    and "name i \<noteq> Some ''separator''"
  shows "includes_str (toLowerCase (orEmpty (title i))) (toLowerCase (search p))
       \<or> includes_str (toLowerCase (orEmpty (keywords_str i))) (toLowerCase (search p))"
proof -
  have "i \<in> set (filteredItems e p)"
    using assms(1,4) set_filtered by blast
  then have "filterItem e p i"
    by (simp add: filteredItems_def)
  then show ?thesis
    using assms(2,3,5) by (rule filterItem_search)
qed

theorem surviving_candidates_contain_search_witness:
  "heading1 \<in> set (filteredItems exampleEnv (headProps [heading1, heading2, imageItem]))
   \<and> name heading1 \<noteq> Some ''separator''
   \<and> includes_str (toLowerCase (orEmpty (title heading1))) ''head''"
proof -
  have c: "''heading1'' \<in> commands exampleEnv" "''heading2'' \<in> commands exampleEnv"
    by (simp_all add: exampleEnv_def)
  have m: "heading1 \<in> set (filteredItems exampleEnv (headProps [heading1, heading2, imageItem]))"
    using c by (simp add: filteredItems_head)
  have n: "name heading1 \<noteq> Some ''separator''"
    by (simp add: heading1_def menuItem_def)
  have k: "\<not> includes_str (toLowerCase (orEmpty (keywords_str heading1))) ''head''"
    by (simp add: heading1_def menuItem_def orEmpty_def toLowerCase_def)
  have "includes_str (toLowerCase (orEmpty (title heading1)))
          (toLowerCase (search (headProps [heading1, heading2, imageItem])))
      \<or> includes_str (toLowerCase (orEmpty (keywords_str heading1)))
          (toLowerCase (search (headProps [heading1, heading2, imageItem])))"
    using surviving_candidates_contain_search
      [of exampleEnv "headProps [heading1, heading2, imageItem]" heading1]
      sortfn_exampleEnv m n
    by (simp add: headProps_def)
  then show ?thesis
    using m n k by (simp add: headProps_def lower_head)
qed




section \<open>Properties of the keyboard navigation\<close>

lemma lastRealIndex_last:
  assumes "fs \<noteq> []" and "\<not> isSeparator (last fs)"
  shows "lastRealIndex fs = int (length fs) - 1"
proof -
  have "rev fs \<noteq> []" and "\<not> isSeparator (hd (rev fs))"
    using assms by (simp_all add: hd_rev)
  then have "dropWhile isSeparator (rev fs) = rev fs"
    by (cases "rev fs") auto
  then show ?thesis
    by (simp add: lastRealIndex_def)
qed

lemma isSeparatorAt_iff:
  "isSeparatorAt fs i \<longleftrightarrow> 0 \<le> i \<and> i < int (length fs) \<and> isSeparator (fs ! nat i)"
  by (auto simp: isSeparatorAt_def elemAt_def isSeparator_def)

lemma next_chord_only:
  "isNextChord ev \<Longrightarrow> key ev \<noteq> ''Enter'' \<and> \<not> isPreviousChord ev \<and> key ev \<noteq> ''Escape''"
  by (auto simp: isNextChord_def isPreviousChord_def)

lemma previous_chord_only:
  "isPreviousChord ev \<Longrightarrow> key ev \<noteq> ''Enter'' \<and> \<not> isNextChord ev \<and> key ev \<noteq> ''Escape''"
  by (auto simp: isNextChord_def isPreviousChord_def)

lemma handleKeyDown_next:
  "isActive p \<Longrightarrow> isNextChord ev \<Longrightarrow> handleKeyDown e p fs i ev = onNext fs i"
  using next_chord_only [of ev] by (simp add: handleKeyDown_def andThen_def onNext_def)

lemma handleKeyDown_previous:
  "isActive p \<Longrightarrow> isPreviousChord ev \<Longrightarrow> handleKeyDown e p fs i ev = onPrevious fs i"
  using previous_chord_only [of ev] by (simp add: handleKeyDown_def andThen_def onPrevious_def)

text \<open>
  The two moves on any list that is not empty: at its last index "next" stays, at index
  0 "previous" stays.
\<close>

lemma onNext_at_last:
  assumes "fs \<noteq> []"
  shows "onNext fs (int (length fs) - 1) =
           ([PreventDefault, StopPropagation, SetSelectedIndex (int (length fs) - 1)], None)"
  using assms by (simp add: onNext_def isSeparatorAt_iff Let_def)

lemma onPrevious_at_0:
  assumes "fs \<noteq> []"
  shows "onPrevious fs 0 = ([PreventDefault, StopPropagation, SetSelectedIndex 0], None)"
  using assms by (simp add: onPrevious_def isSeparatorAt_iff Let_def)

text \<open>
  Skipping a separator needs room behind it: the list must not end ("next") or start
  ("previous") with a separator.
\<close>

lemma onNext_over_separator:
  assumes "fs \<noteq> []" and "\<not> isSeparator (last fs)" and "isSeparatorAt fs (i + 1)"
  shows "onNext fs i = ([PreventDefault, StopPropagation, SetSelectedIndex (i + 2)], None)"
proof -
  have r: "0 \<le> i + 1" "i + 1 < int (length fs)" "isSeparator (fs ! nat (i + 1))"
    using assms(3) by (simp_all add: isSeparatorAt_iff)
  have "nat (i + 1) \<noteq> length fs - 1"
  proof
    assume "nat (i + 1) = length fs - 1"
    then have "fs ! nat (i + 1) = last fs"
      using assms(1) by (simp add: last_conv_nth)
    then show False
      using r(3) assms(2) by simp
  qed
  then have "i + 2 \<le> int (length fs) - 1"
    using r(1,2) by linarith
  then show ?thesis
    using assms(1,3) by (simp add: onNext_def Let_def)
qed

lemma onPrevious_over_separator:
  assumes "fs \<noteq> []" and "\<not> isSeparator (hd fs)" and "isSeparatorAt fs (i - 1)"
  shows "onPrevious fs i = ([PreventDefault, StopPropagation, SetSelectedIndex (i - 2)], None)"
proof -
  have r: "0 \<le> i - 1" "i - 1 < int (length fs)" "isSeparator (fs ! nat (i - 1))"
    using assms(3) by (simp_all add: isSeparatorAt_iff)
  have "nat (i - 1) \<noteq> 0"
  proof
    assume "nat (i - 1) = 0"
    then have "fs ! nat (i - 1) = hd fs"
      using assms(1) by (simp add: hd_conv_nth)
    then show False
      using r(3) assms(2) by simp
  qed
  then have "0 \<le> i - 2"
    using r(1) by linarith
  then show ?thesis
    using assms(1,3) by (simp add: onPrevious_def Let_def)
qed

text \<open>
  C2: while the menu is active and its candidate list is not empty, a "next" chord
  (ArrowDown, Tab without Shift, Ctrl+n) with the index at the last real entry sets the
  index to that same entry, and a "previous" chord (ArrowUp, Shift+Tab, Ctrl+p) at index
  0 sets it to 0; when the entry one step ahead in the direction of travel is a
  separator, the index moves by exactly two. The candidate list is the menu's own
  \<open>filtered\<close>, whose last step is the separator collapse.
\<close>

theorem navigation_clamps_and_skips:
  assumes "isActive p" and "filtered e p \<noteq> []"
  shows "(isNextChord ev \<longrightarrow>
            handleKeyDown e p (filtered e p) (lastRealIndex (filtered e p)) ev =
              ([PreventDefault, StopPropagation,
                SetSelectedIndex (lastRealIndex (filtered e p))], None))
       \<and> (isPreviousChord ev \<longrightarrow>
            handleKeyDown e p (filtered e p) 0 ev =
              ([PreventDefault, StopPropagation, SetSelectedIndex 0], None))
       \<and> (isNextChord ev \<and> isSeparatorAt (filtered e p) (i + 1) \<longrightarrow>
            handleKeyDown e p (filtered e p) i ev =
              ([PreventDefault, StopPropagation, SetSelectedIndex (i + 2)], None))
       \<and> (isPreviousChord ev \<and> isSeparatorAt (filtered e p) (i - 1) \<longrightarrow>
            handleKeyDown e p (filtered e p) i ev =
              ([PreventDefault, StopPropagation, SetSelectedIndex (i - 2)], None))"
proof -
  let ?fs = "filtered e p"
  have l: "\<not> isSeparator (last ?fs)"
    using assms(2) filterExcessSeparators_last by (simp add: filtered_def)
  have h: "\<not> isSeparator (hd ?fs)"
    using assms(2) filterExcessSeparators_hd by (simp add: filtered_def)
  have i: "lastRealIndex ?fs = int (length ?fs) - 1"
    using assms(2) l by (rule lastRealIndex_last)
  show ?thesis
    using assms i
    by (simp add: handleKeyDown_next handleKeyDown_previous onNext_at_last onPrevious_at_0
        onNext_over_separator [OF assms(2) l] onPrevious_over_separator [OF assms(2) h])
qed

theorem navigation_clamps_and_skips_witness:
  "isActive (headProps [heading1, separator, heading2])
   \<and> filtered flatEnv (headProps [heading1, separator, heading2]) = [heading1, separator, heading2]
   \<and> isNextChord arrowDown \<and> isPreviousChord arrowUp
   \<and> handleKeyDown flatEnv (headProps [heading1, separator, heading2])
        [heading1, separator, heading2] 2 arrowDown =
        ([PreventDefault, StopPropagation, SetSelectedIndex 2], None)
   \<and> handleKeyDown flatEnv (headProps [heading1, separator, heading2])
        [heading1, separator, heading2] 0 arrowUp =
        ([PreventDefault, StopPropagation, SetSelectedIndex 0], None)
   \<and> handleKeyDown flatEnv (headProps [heading1, separator, heading2])
        [heading1, separator, heading2] 0 arrowDown =
        ([PreventDefault, StopPropagation, SetSelectedIndex 2], None)
   \<and> handleKeyDown flatEnv (headProps [heading1, separator, heading2])
        [heading1, separator, heading2] 2 arrowUp =
        ([PreventDefault, StopPropagation, SetSelectedIndex 0], None)"
proof -
  let ?p = "headProps [heading1, separator, heading2]"
  have a: "isActive ?p"
    by (simp add: headProps_def)
  have f: "filtered flatEnv ?p = [heading1, separator, heading2]"
    by (rule filtered_flat)
  have n: "filtered flatEnv ?p \<noteq> []"
    by (simp add: f)
  have c: "isNextChord arrowDown" "isPreviousChord arrowUp"
    by (simp_all add: isNextChord_def isPreviousChord_def arrowDown_def arrowUp_def)
  have s: "isSeparatorAt [heading1, separator, heading2] 1"
    by (simp add: isSeparatorAt_def elemAt_def separator_def)
  have r: "lastRealIndex [heading1, separator, heading2] = 2"
    by (simp add: lastRealIndex_def isSeparator_def heading2_def menuItem_def)
  show ?thesis
    using navigation_clamps_and_skips [OF a n, of arrowDown 0]
      navigation_clamps_and_skips [OF a n, of arrowUp 2] a c s r
    by (simp add: f)
qed

section \<open>Properties of the placement\<close>

lemma caretPosition_example: "caretPosition exampleGeometry = exampleCaret"
  by (simp add: caretPosition_def exampleGeometry_def exampleCaret_def)

lemma caretPosition_failed:
  "coordsFrom g = None \<or> coordsTo g = None \<Longrightarrow>
   caretPosition g = \<lparr> rect_top = 0, rect_bottom = 0, rect_left = 0, rect_right = 0 \<rparr>"
  by (auto simp: caretPosition_def split: option.splits)

text \<open>
  C3: for an active menu, \<open>isAbove\<close> is false exactly when the top of the anchor
  rectangle exceeds the panel's height plus the margin (12); the position then has a
  \<open>bottom\<close> offset and no \<open>top\<close>; otherwise \<open>isAbove\<close> is true and the position has a
  \<open>top\<close> offset and no \<open>bottom\<close>. The numbers are reals here.
\<close>

theorem isAbove_iff_space_above:
  assumes "isActive p"
  shows "(isAbove (calculatePosition p g) = False
            \<longleftrightarrow> rect_top (caretPosition g) > panelHeight g + margin)
       \<and> (\<not> isAbove (calculatePosition p g) \<longrightarrow>
            pos_top (calculatePosition p g) = None
          \<and> pos_bottom (calculatePosition p g) =
              Some (case parentRect g of None \<Rightarrow> NaN
                    | Some d \<Rightarrow> Num (rect_bottom d - rect_top (caretPosition g))))
       \<and> (isAbove (calculatePosition p g) \<longrightarrow>
            pos_bottom (calculatePosition p g) = None
          \<and> pos_top (calculatePosition p g) =
              Some (Num (rect_bottom (caretPosition g) - parentTop g)))"
proof (cases "rect_top (caretPosition g) - panelHeight g > margin")
  case True
  then have "rect_top (caretPosition g) > panelHeight g + margin"
    by linarith
  then show ?thesis
    using assms True by (simp add: calculatePosition_def Let_def)
next
  case False
  then have "\<not> rect_top (caretPosition g) > panelHeight g + margin"
    by linarith
  then show ?thesis
    using assms False by (simp add: calculatePosition_def Let_def)
qed

theorem isAbove_iff_space_above_witness:
  "isActive (headProps [])
   \<and> rect_top (caretPosition exampleGeometry) > panelHeight exampleGeometry + margin
   \<and> isAbove (calculatePosition (headProps []) exampleGeometry) = False
   \<and> pos_top (calculatePosition (headProps []) exampleGeometry) = None
   \<and> pos_bottom (calculatePosition (headProps []) exampleGeometry) = Some (Num 480)"
proof -
  have a: "isActive (headProps [])"
    by (simp add: headProps_def)
  have t: "rect_top (caretPosition exampleGeometry) = 400"
    by (simp add: caretPosition_example exampleCaret_def)
  have ph: "panelHeight exampleGeometry = 300"
    by (simp add: panelHeight_def exampleGeometry_def examplePanel_def)
  have h: "rect_top (caretPosition exampleGeometry) > panelHeight exampleGeometry + margin"
    by (simp add: t ph margin_def)
  have r: "parentRect exampleGeometry =
      Some \<lparr> rect_top = 80, rect_bottom = 880, rect_left = 240, rect_right = 1040 \<rparr>"
    by (simp add: parentRect_def exampleGeometry_def examplePanel_def)
  show ?thesis
    using isAbove_iff_space_above [OF a, of exampleGeometry] a h
    by (simp add: r t)
qed

text \<open>
  C4, as stated: when the caret lookup fails, the positioner returns the fixed default
  (off-screen) position. It does not: for an active menu the failed lookup is replaced
  by the zero rectangle and the position is computed from it, so it depends on the
  layout. With the offset parent at (240, 80) the result is top -80, left -240; before
  the panel is mounted it is top 0, left 0; neither is the default position (left
  -10000, \<open>isAbove\<close> false).
\<close>

theorem failed_lookup_is_not_default:
  "isActive (headProps []) \<and> coordsFrom staleGeometry = None
   \<and> calculatePosition (headProps []) staleGeometry =
       \<lparr> pos_top = Some (Num (- 80)), pos_bottom = None, pos_left = Some (Num (- 240)),
         pos_right = None, isAbove = True \<rparr>
   \<and> calculatePosition (headProps []) unmountedStaleGeometry =
       \<lparr> pos_top = Some (Num 0), pos_bottom = None, pos_left = Some (Num 0),
         pos_right = None, isAbove = True \<rparr>
   \<and> calculatePosition (headProps []) staleGeometry \<noteq> defaultPosition
   \<and> calculatePosition (headProps []) unmountedStaleGeometry \<noteq> defaultPosition"
proof -
  have a: "isActive (headProps [])" "\<not> rtl (headProps [])"
    by (simp_all add: headProps_def)
  have c: "coordsFrom staleGeometry = None" "coordsFrom unmountedStaleGeometry = None"
    by (simp_all add: staleGeometry_def unmountedStaleGeometry_def)
  have s: "calculatePosition (headProps []) staleGeometry =
       \<lparr> pos_top = Some (Num (- 80)), pos_bottom = None, pos_left = Some (Num (- 240)),
         pos_right = None, isAbove = True \<rparr>"
    using a
    by (simp add: calculatePosition_def caretPosition_failed c panelWidth_def panelHeight_def
        parentRect_def parentLeft_def parentTop_def margin_def staleGeometry_def
        exampleGeometry_def examplePanel_def)
  have u: "calculatePosition (headProps []) unmountedStaleGeometry =
       \<lparr> pos_top = Some (Num 0), pos_bottom = None, pos_left = Some (Num 0),
         pos_right = None, isAbove = True \<rparr>"
    using a
    by (simp add: calculatePosition_def caretPosition_failed c panelWidth_def panelHeight_def
        parentRect_def parentLeft_def parentTop_def margin_def staleGeometry_def
        unmountedStaleGeometry_def exampleGeometry_def)
  show ?thesis
    using a c by (simp add: s u defaultPosition_def)
qed

text \<open>
  C4, amended: when either caret lookup fails, the positioner does not raise. If the
  menu is not active it returns the default position; if it is active it puts the zero
  rectangle in the anchor's place and, for a panel of non-negative height, returns
  \<open>isAbove\<close> true, \<open>top\<close> minus the offset parent's top, no \<open>bottom\<close>, and \<open>left\<close>
  computed as for any anchor whose left and right edges are 0.
\<close>

theorem failed_lookup_position:
  assumes "coordsFrom g = None \<or> coordsTo g = None" and "0 \<le> panelHeight g"
  shows "calculatePosition p g =
     (if \<not> isActive p then defaultPosition
      else \<lparr> pos_top = Some (Num (- parentTop g)), pos_bottom = None,
             pos_left = Some (Num (if rtl p then - panelWidth g
                                   else min (- parentLeft g)
                                          (innerWidth g - parentLeft g - panelWidth g - margin))),
             pos_right = None, isAbove = True \<rparr>)"
  using assms(2)
  by (simp add: calculatePosition_def caretPosition_failed [OF assms(1)] margin_def)

theorem failed_lookup_position_witness:
  "(coordsFrom staleGeometry = None \<and> 0 \<le> panelHeight staleGeometry)
   \<and> calculatePosition (headProps []) staleGeometry =
       \<lparr> pos_top = Some (Num (- 80)), pos_bottom = None, pos_left = Some (Num (- 240)),
         pos_right = None, isAbove = True \<rparr>"
proof -
  have c: "coordsFrom staleGeometry = None"
    by (simp add: staleGeometry_def)
  have h: "0 \<le> panelHeight staleGeometry"
    by (simp add: panelHeight_def staleGeometry_def exampleGeometry_def examplePanel_def)
  have "coordsFrom staleGeometry = None \<or> coordsTo staleGeometry = None"
    using c by simp
  from failed_lookup_position [OF this h, of "headProps []"] c h show ?thesis
    by (simp add: headProps_def panelWidth_def parentRect_def parentLeft_def parentTop_def
        margin_def staleGeometry_def exampleGeometry_def examplePanel_def)
qed

section \<open>Properties of the link input\<close>

lemma insertNode_embed:
  assumes "''embed'' \<in> commands e \<or> ''createEmbed'' \<in> commands e"
  shows "insertNode e (embedNode href) =
     ([OnClearSearch,
       RunCommand (if ''embed'' \<in> commands e then ''embed'' else ''createEmbed'')
         [(''href'', href)],
       OnClose None], None)"
proof -
  have c: "capitalize ''embed'' = ''Embed''"
    by (simp add: toUpperChar_def toLowerCase_def toLowerChar_def)
  show ?thesis
    using assms
    by (auto simp add: insertNode_def embedNode_def truthy_def orEmpty_def c Let_def
        simp del: capitalize.simps)
qed

text \<open>
  C7, as stated: a pasted text that does not match the active candidate's matcher
  leaves the document alone, shows a toast and stays in link editing. No toast is
  shown: on a paste that does not match, the paste handler calls nothing at all.
\<close>

theorem paste_without_match_shows_no_toast:
  "isActive (headProps []) \<and> \<not> matches exampleEmbed ''not a link''
   \<and> handleLinkInputPaste exampleEnv (headProps []) (Some exampleEmbed) ''not a link'' = ([], None)
   \<and> ShowToast ''embedInvalidLink'' \<notin>
       set (fst (handleLinkInputPaste exampleEnv (headProps []) (Some exampleEmbed) ''not a link''))"
  by (simp add: handleLinkInputPaste_def matches_def exampleEmbed_def headProps_def)

text \<open>
  C7, amended: in link editing (the menu active, the chosen candidate an embed entry
  that survived the menu's filtering step), a pasted text that does not match the
  candidate's matcher makes the paste handler do nothing: no command, no transaction,
  no toast, no close, so the state stays link editing. A pasted text that matches is
  committed at once, without Enter: the event is stopped, the search cleared, the embed
  command run with the text as \<open>href\<close>, and the menu closed.
\<close>

theorem paste_in_link_input:
  assumes "isActive p"
  shows "(\<not> matches i href \<longrightarrow> handleLinkInputPaste e p (Some i) href = ([], None))
       \<and> (matches i href \<and> name i = Some ''embed'' \<and> i \<in> set (filteredItems e p) \<longrightarrow>
            handleLinkInputPaste e p (Some i) href =
              ([PreventDefault, StopPropagation, OnClearSearch,
                RunCommand (if ''embed'' \<in> commands e then ''embed'' else ''createEmbed'')
                  [(''href'', href)],
                OnClose None], None))"
proof -
  have c: "capitalize ''embed'' = ''Embed''"
    by (simp add: toUpperChar_def toLowerCase_def toLowerChar_def)
  have r: "''embed'' \<in> commands e \<or> ''createEmbed'' \<in> commands e"
    if "name i = Some ''embed''" and "i \<in> set (filteredItems e p)"
  proof -
    have "filterItem e p i"
      using that(2) by (simp add: filteredItems_def)
    then show ?thesis
      using that(1)
      by (auto simp add: filterItem_def truthy_def orEmpty_def c Let_def
          simp del: capitalize.simps split: if_splits)
  qed
  show ?thesis
    using assms r
    by (auto simp add: handleLinkInputPaste_def andThen_def insertNode_embed)
qed

lemma exampleEmbed_offered: "exampleEmbed \<in> set (filteredItems exampleEnv linkProps)"
proof -
  have "filterItem exampleEnv linkProps exampleEmbed"
    by (simp add: filterItem_def linkProps_def exampleEmbed_def exampleEnv_def truthy_def
        orEmpty_def)
  then show ?thesis
    by (simp add: filteredItems_def allItems_def embedItems_def linkProps_def)
qed

theorem paste_in_link_input_witness:
  "isActive linkProps
   \<and> name exampleEmbed = Some ''embed''
   \<and> exampleEmbed \<in> set (filteredItems exampleEnv linkProps)
   \<and> matches exampleEmbed ''https://example.com/v/1''
   \<and> handleLinkInputPaste exampleEnv linkProps (Some exampleEmbed) ''https://example.com/v/1'' =
       ([PreventDefault, StopPropagation, OnClearSearch,
         RunCommand ''embed'' [(''href'', ''https://example.com/v/1'')], OnClose None], None)
   \<and> \<not> matches exampleEmbed ''not a link''
   \<and> handleLinkInputPaste exampleEnv linkProps (Some exampleEmbed) ''not a link'' = ([], None)"
proof -
  have a: "isActive linkProps"
    by (simp add: linkProps_def)
  have n: "name exampleEmbed = Some ''embed''"
    by (simp add: exampleEmbed_def)
  have m: "matches exampleEmbed ''https://example.com/v/1''" "\<not> matches exampleEmbed ''not a link''"
    by (simp_all add: matches_def exampleEmbed_def)
  have c: "''embed'' \<in> commands exampleEnv"
    by (simp add: exampleEnv_def)
  show ?thesis
    using paste_in_link_input [OF a, of exampleEmbed "''https://example.com/v/1''" exampleEnv]
      paste_in_link_input [OF a, of exampleEmbed "''not a link''" exampleEnv]
      a n m c exampleEmbed_offered
    by simp
qed

section \<open>Properties of the window listeners\<close>

lemma runCleanup_own: "runCleanup c (effectListeners c) = []"
  by (cases c) (simp_all add: runCleanup_def)

lemma lifecycleStep_registered:
  assumes "registered s = (if mounted s then effectListeners c else [])"
  shows "registered (lifecycleStep c s ev) =
           (if mounted (lifecycleStep c s ev) then effectListeners c else [])"
  using assms by (cases ev) (simp_all add: runEffect_def runCleanup_own)

lemma foldl_lifecycleStep_registered:
  assumes "registered s = (if mounted s then effectListeners c else [])"
  shows "registered (foldl (lifecycleStep c) s evs) =
           (if mounted (foldl (lifecycleStep c) s evs) then effectListeners c else [])"
  using assms
proof (induction evs arbitrary: s)
  case Nil
  then show ?case by simp
next
  case (Cons ev evs)
  show ?case
    using Cons.IH [OF lifecycleStep_registered [OF Cons.prems]] by simp
qed

text \<open>
  C9, as stated: in every reachable inactive state no listener of the controller is
  registered on the window. It fails as soon as the suggestions menu is rendered with
  \<open>isActive\<close> false: its effect registers the mousedown and keydown listeners without
  looking at \<open>isActive\<close>. The selection toolbar that goes from active to inactive keeps
  its mouseup listener in the same way.
\<close>

theorem listeners_registered_while_inactive:
  "mounted (lifecycleRun SuggestionsMenu [Render False True])
   \<and> \<not> active (lifecycleRun SuggestionsMenu [Render False True])
   \<and> registered (lifecycleRun SuggestionsMenu [Render False True]) = [MouseDown, KeyDownCapture]
   \<and> \<not> active (lifecycleRun SelectionToolbar [Render True True, Render False True])
   \<and> registered (lifecycleRun SelectionToolbar [Render True True, Render False True]) = [MouseUp]"
  by (simp add: lifecycleRun_def unmounted_def runEffect_def runCleanup_def)

text \<open>
  C9, amended: after any sequence of renders and unmounts, the controller's window
  listeners are registered exactly while the component is mounted, active or not, and
  then once each (the suggestions menu: mousedown and capturing keydown; the selection
  toolbar: mouseup): a re-run of the effect removes the previous listeners before it
  adds the new ones, and unmounting removes them, so none accumulates.
\<close>

theorem listeners_registered_while_mounted:
  "registered (lifecycleRun c evs) =
     (if mounted (lifecycleRun c evs) then effectListeners c else [])"
  unfolding lifecycleRun_def
  by (rule foldl_lifecycleStep_registered) (simp add: unmounted_def)

section \<open>Properties of the selection toolbar\<close>

text \<open>
  C5, as stated: the toolbar is active exactly when the predicate of the spec holds.
  It fails for a text selection, not empty, whose text content is empty while its slice
  has a non-empty node (a selection over an inline node without text): the spec's
  predicate holds, and \<open>useIsActive\<close> answers false.
\<close>

theorem text_selection_without_text_is_inactive:
  "specIsActive inlineNodeState \<and> \<not> useIsActive inlineNodeState"
  by (simp add: specIsActive_def useIsActive_def inlineNodeState_def isNodeSelection_def)

text \<open>
  C5, amended: \<open>useIsActive\<close> answers active exactly when a link mark covers the
  position; or the selection is not empty and is a node selection of a horizontal rule
  or an image; or the selection is not empty, is not a node selection, is not a text
  selection whose text content is empty, and its content has a non-empty node.
\<close>

theorem useIsActive_iff:
  "useIsActive st \<longleftrightarrow>
     linkMarkActive st \<or>
     (\<exists>s. state_selection st = Some s \<and> \<not> sel_empty s \<and>
        (sel_class s = NodeSelection ''hr'' \<or> sel_class s = NodeSelection ''image'' \<or>
         (\<not> isNodeSelection s
          \<and> \<not> (sel_class s = TextSelection \<and> selectionText st = [])
          \<and> list_ex (\<lambda>size. size \<noteq> 0) (contentSizes st))))"
  by (auto simp: useIsActive_def isNodeSelection_def split: option.splits)

text \<open>
  C10: when the selection is collapsed (\<open>from\<close> equals \<open>to\<close>), the toolbar's
  create-link action returns without any call: no transaction is dispatched, so no
  placeholder link mark is inserted and the document stays as it is.
\<close>

theorem create_link_on_collapsed_selection:
  assumes "sel_from s = sel_to s"
  shows "handleOnCreateLink hasOnCreateLink creatingUrlPrefix s t = []"
  using assms by (simp add: handleOnCreateLink_def)

theorem create_link_on_collapsed_selection_witness:
  "sel_from collapsedSelection = sel_to collapsedSelection
   \<and> handleOnCreateLink True ''creating#'' collapsedSelection ''New doc'' = []"
proof -
  have c: "sel_from collapsedSelection = sel_to collapsedSelection"
    by (simp add: collapsedSelection_def)
  from create_link_on_collapsed_selection [OF c, of True "''creating#''" "''New doc''"] c
  show ?thesis by simp
qed

end
